theory Spec2Isabelle
  imports Main "HOL-Library.AList"
begin

section \<open>JavaScript strings\<close>

text \<open>
  A JavaScript string is a sequence of UTF-16 code units. The development models a string
  as an Isabelle \<open>string\<close>, one \<open>char\<close> for one code unit, and so covers the strings whose
  code units are below 256 (ASCII and Latin-1). On these strings the library functions
  used by the sources are modelled exactly; each definition names the JavaScript
  operation it stands for.
\<close>

definition code_unit :: "char \<Rightarrow> nat" where
  "code_unit c = of_char c"

definition isAsciiUpper :: "char \<Rightarrow> bool" where
  "isAsciiUpper c = (65 \<le> code_unit c \<and> code_unit c \<le> 90)"

definition isAsciiLower :: "char \<Rightarrow> bool" where
  "isAsciiLower c = (97 \<le> code_unit c \<and> code_unit c \<le> 122)"

definition isLatin1Upper :: "char \<Rightarrow> bool" where
  "isLatin1Upper c = (192 \<le> code_unit c \<and> code_unit c \<le> 222 \<and> code_unit c \<noteq> 215)"

definition isDigit :: "char \<Rightarrow> bool" where
  "isDigit c = (48 \<le> code_unit c \<and> code_unit c \<le> 57)"

text \<open>The class \<open>\w\<close> of a regular expression without the unicode flag: \<open>[A-Za-z0-9_]\<close>.\<close>

definition isWordChar :: "char \<Rightarrow> bool" where
  "isWordChar c = (isAsciiUpper c \<or> isAsciiLower c \<or> isDigit c \<or> code_unit c = 95)"

text \<open>
  The class \<open>\s\<close>, which is also what \<open>trim\<close> strips: tab, line feed, vertical tab, form
  feed, carriage return, space and the no-break space (the other members are code units
  above 255).
\<close>

definition isSpace :: "char \<Rightarrow> bool" where
  "isSpace c = (code_unit c \<in> {9, 10, 11, 12, 13, 32, 160})"

text \<open>Bit 5 of a code unit separates a capital letter from its small letter.\<close>

fun setBit5 :: "bool \<Rightarrow> char \<Rightarrow> char" where
  "setBit5 b (Char b0 b1 b2 b3 b4 b5 b6 b7) = Char b0 b1 b2 b3 b4 b b6 b7"

text \<open>\<open>String.prototype.toLowerCase\<close>, one code unit at a time.\<close>

definition lowerChar :: "char \<Rightarrow> char" where
  "lowerChar c = (if isAsciiUpper c \<or> isLatin1Upper c then setBit5 True c else c)"

definition toLowerCase :: "string \<Rightarrow> string" where
  "toLowerCase s = map lowerChar s"

text \<open>
  The canonical form under which a regular expression with the flag \<open>i\<close> (and without the
  unicode flag) compares a code unit with an ASCII character of the pattern: the capital
  letter for an ASCII small letter, and the code unit itself otherwise (a code unit from
  128 on never folds to an ASCII one).
\<close>

definition canonicalize :: "char \<Rightarrow> char" where
  "canonicalize c = (if isAsciiLower c then setBit5 False c else c)"

fun startsWith :: "string \<Rightarrow> string \<Rightarrow> bool" where
  "startsWith s [] = True"
| "startsWith [] (k # ks) = False"
| "startsWith (c # cs) (k # ks) = (c = k \<and> startsWith cs ks)"

text \<open>\<open>String.prototype.includes\<close>: the second string occurs in the first.\<close>

fun includesStr :: "string \<Rightarrow> string \<Rightarrow> bool" where
  "includesStr [] w = (w = [])"
| "includesStr (c # cs) w = (startsWith (c # cs) w \<or> includesStr cs w)"

text \<open>
  \<open>s.split(/\s+/)\<close>: the pieces of \<open>s\<close> between its maximal runs of white space. A run
  at the start or at the end leaves an empty piece there, and the empty string splits
  into one empty piece. The accumulator holds the current piece reversed; the flag says
  that the scan stands inside a run.
\<close>

fun split_ws :: "string \<Rightarrow> bool \<Rightarrow> string \<Rightarrow> string list" where
  "split_ws acc gap [] = [rev acc]"
| "split_ws acc gap (c # cs) =
     (if isSpace c then (if gap then split_ws acc True cs else rev acc # split_ws [] True cs)
      else split_ws (c # acc) False cs)"

definition splitWhitespace :: "string \<Rightarrow> string list" where
  "splitWhitespace s = split_ws [] False s"

text \<open>\<open>String.prototype.trim\<close>.\<close>

definition trim :: "string \<Rightarrow> string" where
  "trim s = rev (dropWhile isSpace (rev (dropWhile isSpace s)))"

text \<open>The decimal digits of a number, as a template literal prints it.\<close>

definition digitChar :: "nat \<Rightarrow> char" where
  "digitChar d = ''0123456789'' ! d"

function decimal :: "nat \<Rightarrow> string" where
  "decimal n = (if n < 10 then [digitChar n] else decimal (n div 10) @ [digitChar (n mod 10)])"
  by pat_completeness auto
termination
  by (relation "measure (\<lambda>n. n)") auto

definition showInt :: "int \<Rightarrow> string" where
  "showInt i = (if i < 0 then CHR ''-'' # decimal (nat (- i)) else decimal (nat i))"

subsection \<open>Regular expressions of the shape \<open>\b(alt|...|alt)\b\<close>\<close>

text \<open>
  Every regular expression of the mode resolver is a list of alternatives between two
  word boundaries. An alternative is a sequence of atoms: a literal character, or the
  class \<open>[0-9]\<close>. \<open>regexTest\<close> is \<open>RegExp.prototype.test\<close> (and the truth value of
  \<open>String.prototype.match\<close>): some position of the string starts a match. The first
  argument is the flag \<open>i\<close>.
\<close>

datatype atom = Lit char | DigitClass

definition lits :: "string \<Rightarrow> atom list" where
  "lits s = map Lit s"

fun atomOk :: "bool \<Rightarrow> atom \<Rightarrow> char \<Rightarrow> bool" where
  "atomOk ci (Lit p) c = (if ci then canonicalize p = canonicalize c else p = c)"
| "atomOk ci DigitClass c = isDigit c"

fun isWordOpt :: "char option \<Rightarrow> bool" where
  "isWordOpt None = False"
| "isWordOpt (Some c) = isWordChar c"

fun headOpt :: "string \<Rightarrow> char option" where
  "headOpt [] = None"
| "headOpt (c # cs) = Some c"

text \<open>\<open>\b\<close> between the code unit before the position and the one after it.\<close>

definition wordBoundary :: "char option \<Rightarrow> string \<Rightarrow> bool" where
  "wordBoundary prev s = (isWordOpt prev \<noteq> isWordOpt (headOpt s))"

text \<open>The atoms of one alternative, then the closing \<open>\b\<close>.\<close>

fun matchAlt :: "bool \<Rightarrow> atom list \<Rightarrow> char option \<Rightarrow> string \<Rightarrow> bool" where
  "matchAlt ci [] prev s = wordBoundary prev s"
| "matchAlt ci (a # as) prev [] = False"
| "matchAlt ci (a # as) prev (c # cs) = (atomOk ci a c \<and> matchAlt ci as (Some c) cs)"

definition matchHere :: "bool \<Rightarrow> atom list list \<Rightarrow> char option \<Rightarrow> string \<Rightarrow> bool" where
  "matchHere ci alts prev s = (wordBoundary prev s \<and> list_ex (\<lambda>alt. matchAlt ci alt prev s) alts)"

fun searchFrom :: "bool \<Rightarrow> atom list list \<Rightarrow> char option \<Rightarrow> string \<Rightarrow> bool" where
  "searchFrom ci alts prev [] = matchHere ci alts prev []"
| "searchFrom ci alts prev (c # cs) =
     (matchHere ci alts prev (c # cs) \<or> searchFrom ci alts (Some c) cs)"

definition regexTest :: "bool \<Rightarrow> atom list list \<Rightarrow> string \<Rightarrow> bool" where
  "regexTest ci alts s = searchFrom ci alts None s"

section \<open>The mode resolver\<close>

datatype ChatMode =
    Auto | Pro | Deep
  | GEMINI_2_5_PRO | GEMINI_2_5_FLASH
  | GLM_4_5_AIR | DEEPSEEK_CHAT_V3_1 | DEEPSEEK_R1 | LONGCAT_FLASH_CHAT
  | GPT_OSS_20B | DOLPHIN_MISTRAL_24B_VENICE
  | DOCUMENT_QA | IMAGE_GENERATION

definition codeIndicators :: "string list" where
  "codeIndicators =
     [''code'', ''function'', ''class'', ''algorithm'', ''debug'', ''error'', ''bug'',
      ''implement'', ''refactor'', ''optimize'', ''python'', ''javascript'', ''typescript'',
      ''java'', ''c++'', ''rust'', ''go'', ''sql'', ''api'', ''regex'', ''git'']"

definition mathIndicators :: "string list" where
  "mathIndicators =
     [''calculate'', ''solve'', ''equation'', ''math'', ''proof'', ''theorem'', ''reasoning'',
      ''logic'', ''derive'', ''compute'', ''algorithm complexity'']"

definition newsIndicators :: "string list" where
  "newsIndicators =
     [''news'', ''latest'', ''recent'', ''today'', ''yesterday'', ''current'', ''breaking'',
      ''trending'']"

definition creativeIndicators :: "string list" where
  "creativeIndicators =
     [''write'', ''story'', ''poem'', ''creative'', ''fiction'', ''essay'', ''article'',
      ''blog'', ''script'', ''dialogue'', ''character'']"

text \<open>\<open>indicators.filter(word => lowerQuery.includes(word)).length\<close>\<close>

definition score :: "string list \<Rightarrow> string \<Rightarrow> nat" where
  "score indicators lowerQuery = length (filter (\<lambda>word. includesStr lowerQuery word) indicators)"

text \<open>\<open>/\b(image|photo|picture|screenshot|diagram|chart|graph|visual)\b/i\<close>\<close>

definition imagePattern :: "atom list list" where
  "imagePattern = map lits [''image'', ''photo'', ''picture'', ''screenshot'', ''diagram'',
     ''chart'', ''graph'', ''visual'']"

text \<open>
  \<open>/\b(prove|theorem|...)\b/i\<close>: the four further alternatives of the source are the
  signs for integral, sum, product and partial derivative, code units above 255, which
  no string of the model holds.
\<close>

definition provePattern :: "atom list list" where
  "provePattern = map lits [''prove'', ''theorem'']"

text \<open>
  \<open>new RegExp(`\\b(${currentYear}|${currentYear - 1}|202[0-9])\\b`, 'g')\<close>, where
  \<open>currentYear\<close> is \<open>new Date().getFullYear()\<close>.
\<close>

definition recentYearPattern :: "int \<Rightarrow> atom list list" where
  "recentYearPattern currentYear =
     [lits (showInt currentYear), lits (showInt (currentYear - 1)),
      [Lit CHR ''2'', Lit CHR ''0'', Lit CHR ''2'', DigitClass]]"

text \<open>\<open>/\b(research|analyze|compare|comprehensive|detailed|explain)\b/i\<close>\<close>

definition researchPattern :: "atom list list" where
  "researchPattern = map lits [''research'', ''analyze'', ''compare'', ''comprehensive'',
     ''detailed'', ''explain'']"

text \<open>\<open>/\b(translate|translation|language)\b/i\<close>\<close>

definition translatePattern :: "atom list list" where
  "translatePattern = map lits [''translate'', ''translation'', ''language'']"

text \<open>
  \<open>selectModelForQuery(query, hasImage)\<close>. The function reads the clock
  (\<open>new Date().getFullYear()\<close>); the year it reads is the first argument of the model.
\<close>

definition selectModelForQuery :: "int \<Rightarrow> string \<Rightarrow> bool \<Rightarrow> ChatMode" where
  "selectModelForQuery currentYear query hasImage =
     (let lowerQuery = toLowerCase query;
          tokens = splitWhitespace query;
          len = length tokens
      in if hasImage \<or> regexTest True imagePattern query then GEMINI_2_5_FLASH
         else if score codeIndicators lowerQuery \<ge> 2 then DEEPSEEK_CHAT_V3_1
         else if score mathIndicators lowerQuery \<ge> 2 \<or> regexTest True provePattern query
           then DEEPSEEK_R1
         else if regexTest False (recentYearPattern currentYear) query
                 \<or> score newsIndicators lowerQuery \<ge> 2
           then LONGCAT_FLASH_CHAT
         else if len > 50 \<or> regexTest True researchPattern query then GEMINI_2_5_PRO
         else if score creativeIndicators lowerQuery \<ge> 2 then GLM_4_5_AIR
         else if regexTest True translatePattern query \<and> len < 30 then GEMINI_2_5_FLASH
         else if len < 20 then GEMINI_2_5_FLASH
         else DEEPSEEK_CHAT_V3_1)"

text \<open>\<open>/\b(image|photo|picture)\b/i\<close>\<close>

definition imageReasonPattern :: "atom list list" where
  "imageReasonPattern = map lits [''image'', ''photo'', ''picture'']"

definition getModelSelectionReason :: "string \<Rightarrow> ChatMode \<Rightarrow> string" where
  "getModelSelectionReason query selectedModel =
     (let lowerQuery = toLowerCase query
      in case selectedModel of
           GEMINI_2_5_FLASH \<Rightarrow>
             (if regexTest True imageReasonPattern query
              then ''Multimodal capabilities for image analysis''
              else ''Fast response for quick queries'')
         | GEMINI_2_5_PRO \<Rightarrow> ''Deep research and comprehensive analysis''
         | DEEPSEEK_CHAT_V3_1 \<Rightarrow>
             (if includesStr lowerQuery ''code'' then ''Optimized for coding tasks''
              else ''Balanced performance for general queries'')
         | DEEPSEEK_R1 \<Rightarrow> ''Advanced reasoning with chain-of-thought''
         | LONGCAT_FLASH_CHAT \<Rightarrow> ''Real-time information with internet access''
         | GLM_4_5_AIR \<Rightarrow> ''Creative content generation''
         | _ \<Rightarrow> ''General-purpose model'')"

definition selectOpenRouterFallback :: "int \<Rightarrow> string \<Rightarrow> ChatMode" where
  "selectOpenRouterFallback currentYear query =
     (let lowerQuery = toLowerCase query
      in if score codeIndicators lowerQuery \<ge> 2 then DEEPSEEK_CHAT_V3_1
         else if score mathIndicators lowerQuery \<ge> 2 \<or> regexTest True provePattern query
           then DEEPSEEK_R1
         else if regexTest False (recentYearPattern currentYear) query
                 \<or> score newsIndicators lowerQuery \<ge> 2
           then LONGCAT_FLASH_CHAT
         else if score creativeIndicators lowerQuery \<ge> 2 then GLM_4_5_AIR
         else DEEPSEEK_CHAT_V3_1)"

text \<open>\<open>query.trim().split(/\s+/).filter(Boolean).length\<close> counts the non-empty pieces.\<close>

definition selectGeminiFallback :: "string \<Rightarrow> bool \<Rightarrow> ChatMode" where
  "selectGeminiFallback query hasImage =
     (if hasImage then GEMINI_2_5_FLASH
      else let len = length (filter (\<lambda>t. t \<noteq> []) (splitWhitespace (trim query)))
           in if len > 50 then GEMINI_2_5_PRO else GEMINI_2_5_FLASH)"

section \<open>Providers and credentials\<close>

datatype ProviderEnumType = GOOGLE | OPENROUTER

text \<open>
  The enumeration \<open>ModelEnum\<close>; its members carry the suffix \<open>_MODEL\<close> to keep them
  apart from the chat modes of the same names.
\<close>

datatype ModelEnum =
    GEMINI_2_5_PRO_MODEL | GEMINI_2_5_FLASH_MODEL | GEMINI_2_5_FLASH_IMAGE_MODEL
  | GLM_4_5_AIR_MODEL | DEEPSEEK_CHAT_V3_1_MODEL | DEEPSEEK_R1_MODEL
  | LONGCAT_FLASH_CHAT_MODEL | GPT_OSS_20B_MODEL | DOLPHIN_MISTRAL_24B_VENICE_MODEL

text \<open>The type \<open>Model\<close>, without its two prices (floating-point numbers nothing here reads).\<close>

record Model =
  model_id :: ModelEnum
  model_name :: string
  provider :: ProviderEnumType
  maxTokens :: nat
  contextWindow :: nat
  isFree :: bool

definition models :: "Model list" where
  "models =
    [\<lparr>model_id = GEMINI_2_5_FLASH_MODEL, model_name = ''Gemini 2.5 Flash'',
       provider = GOOGLE, maxTokens = 200000, contextWindow = 200000, isFree = False\<rparr>,
     \<lparr>model_id = GEMINI_2_5_FLASH_IMAGE_MODEL, model_name = ''Gemini 2.5 Flash Image Preview'',
       provider = GOOGLE, maxTokens = 200000, contextWindow = 200000, isFree = False\<rparr>,
     \<lparr>model_id = GEMINI_2_5_PRO_MODEL, model_name = ''Gemini 2.5 Pro'',
       provider = GOOGLE, maxTokens = 200000, contextWindow = 200000, isFree = False\<rparr>,
     \<lparr>model_id = GLM_4_5_AIR_MODEL, model_name = ''GLM 4.5 Air (OpenRouter Free)'',
       provider = OPENROUTER, maxTokens = 8000, contextWindow = 128000, isFree = True\<rparr>,
     \<lparr>model_id = DEEPSEEK_CHAT_V3_1_MODEL, model_name = ''DeepSeek Chat v3.1 (OpenRouter Free)'',
       provider = OPENROUTER, maxTokens = 8000, contextWindow = 128000, isFree = True\<rparr>,
     \<lparr>model_id = DEEPSEEK_R1_MODEL, model_name = ''DeepSeek R1 (OpenRouter Free)'',
       provider = OPENROUTER, maxTokens = 8000, contextWindow = 128000, isFree = True\<rparr>,
     \<lparr>model_id = LONGCAT_FLASH_CHAT_MODEL, model_name = ''LongCat Flash Chat (OpenRouter Free)'',
       provider = OPENROUTER, maxTokens = 8000, contextWindow = 128000, isFree = True\<rparr>,
     \<lparr>model_id = GPT_OSS_20B_MODEL, model_name = ''GPT-OSS 20B (OpenRouter Free)'',
       provider = OPENROUTER, maxTokens = 8000, contextWindow = 128000, isFree = True\<rparr>,
     \<lparr>model_id = DOLPHIN_MISTRAL_24B_VENICE_MODEL,
       model_name = ''Dolphin Mistral 24B Venice (OpenRouter Free)'',
       provider = OPENROUTER, maxTokens = 8000, contextWindow = 128000, isFree = True\<rparr>]"

fun getModelFromChatMode :: "ChatMode \<Rightarrow> ModelEnum" where
  "getModelFromChatMode GEMINI_2_5_PRO = GEMINI_2_5_PRO_MODEL"
| "getModelFromChatMode GEMINI_2_5_FLASH = GEMINI_2_5_FLASH_MODEL"
| "getModelFromChatMode GLM_4_5_AIR = GLM_4_5_AIR_MODEL"
| "getModelFromChatMode DEEPSEEK_CHAT_V3_1 = DEEPSEEK_CHAT_V3_1_MODEL"
| "getModelFromChatMode DEEPSEEK_R1 = DEEPSEEK_R1_MODEL"
| "getModelFromChatMode LONGCAT_FLASH_CHAT = LONGCAT_FLASH_CHAT_MODEL"
| "getModelFromChatMode GPT_OSS_20B = GPT_OSS_20B_MODEL"
| "getModelFromChatMode DOLPHIN_MISTRAL_24B_VENICE = DOLPHIN_MISTRAL_24B_VENICE_MODEL"
| "getModelFromChatMode IMAGE_GENERATION = GEMINI_2_5_FLASH_IMAGE_MODEL"
| "getModelFromChatMode _ = GEMINI_2_5_FLASH_MODEL"

text \<open>
  \<open>getProviderForMode\<close>: the provider of the first entry of \<open>models\<close> with the mode's
  model id, \<open>None\<close> (the source's \<open>null\<close>) when there is none.
\<close>

definition getProviderForMode :: "ChatMode \<Rightarrow> ProviderEnumType option" where
  "getProviderForMode m =
     (case find (\<lambda>model. model_id model = getModelFromChatMode m) models of
        Some modelConfig \<Rightarrow> Some (provider modelConfig)
      | None \<Rightarrow> None)"

text \<open>
  Where \<open>getProviderApiKey\<close> looks for a key: the two environment variables, then the
  table \<open>AI_API_KEYS\<close> of the global object. An unset variable or entry is the empty
  string, which is what the source's truth tests take it for.
\<close>

record environment =
  GEMINI_API_KEY :: string
  OPENROUTER_API_KEY :: string
  AI_API_KEYS :: "ProviderEnumType \<Rightarrow> string"

definition getProviderApiKey :: "environment \<Rightarrow> ProviderEnumType \<Rightarrow> string" where
  "getProviderApiKey env p =
     (let fromEnv = (case p of GOOGLE \<Rightarrow> GEMINI_API_KEY env | OPENROUTER \<Rightarrow> OPENROUTER_API_KEY env)
      in if fromEnv \<noteq> [] then fromEnv else AI_API_KEYS env p)"

text \<open>
  What a \<open>throw\<close> raises: a plain \<open>Error\<close> or a \<open>TypeError\<close>, with its message, or
  the class \<open>MissingProviderKeyError\<close> of the providers module, built from the provider
  whose key is missing.
\<close>

datatype js_error = Error string | TypeError string | MissingProviderKeyError ProviderEnumType

text \<open>
  \<open>getProviderInstance\<close>, as far as the key goes: it throws the typed error when the
  provider has no key, and builds the client from the key otherwise.
\<close>

definition getProviderInstance :: "environment \<Rightarrow> ProviderEnumType \<Rightarrow> js_error + string" where
  "getProviderInstance env p =
     (let apiKey = getProviderApiKey env p
      in if apiKey = [] then Inl (MissingProviderKeyError p) else Inr apiKey)"

record availability =
  res_mode :: ChatMode
  res_changed :: bool
  res_message :: "string option"

text \<open>
  The three messages of \<open>ensureProviderAvailability\<close>. The source writes the path to the
  settings with an arrow (U+2192), printed here as \<open>->\<close>.
\<close>

definition imageNeedsGeminiKey :: string where
  "imageNeedsGeminiKey = ''Image questions in Auto mode require a configured GEMINI_API_KEY. Please add your Gemini key or remove the image.''"

definition needsOneProvider :: string where
  "needsOneProvider = ''Auto mode needs at least one provider configured. Please set OPENROUTER_API_KEY to enable OpenRouter models or add a personal key in Settings -> API Keys.''"

definition needsGeminiKey :: string where
  "needsGeminiKey = ''Auto mode needs a Gemini API key when OpenRouter is unavailable. Please set GEMINI_API_KEY or provide a personal key in Settings -> API Keys.''"

text \<open>The test \<open>!fallbackProvider || !getProviderApiKey(fallbackProvider)\<close>.\<close>

definition unavailable :: "environment \<Rightarrow> ProviderEnumType option \<Rightarrow> bool" where
  "unavailable env fallbackProvider =
     (case fallbackProvider of None \<Rightarrow> True | Some p \<Rightarrow> getProviderApiKey env p = [])"

definition ensureProviderAvailability ::
  "environment \<Rightarrow> int \<Rightarrow> ChatMode \<Rightarrow> string \<Rightarrow> bool \<Rightarrow> js_error + availability" where
  "ensureProviderAvailability env currentYear m query hasImageAttachment =
     (case getProviderForMode m of
        None \<Rightarrow> Inr \<lparr>res_mode = m, res_changed = False, res_message = None\<rparr>
      | Some p \<Rightarrow>
          if getProviderApiKey env p \<noteq> []
          then Inr \<lparr>res_mode = m, res_changed = False, res_message = None\<rparr>
          else (case p of
            GOOGLE \<Rightarrow>
              if hasImageAttachment then Inl (Error imageNeedsGeminiKey)
              else let fallbackMode = selectOpenRouterFallback currentYear query;
                       fallbackProvider = getProviderForMode fallbackMode
                   in if unavailable env fallbackProvider then Inl (Error needsOneProvider)
                      else Inr \<lparr>res_mode = fallbackMode, res_changed = True,
                             res_message = Some ''Fallback to OpenRouter because Gemini API key is missing''\<rparr>
          | OPENROUTER \<Rightarrow>
              let fallbackMode = selectGeminiFallback query hasImageAttachment;
                  fallbackProvider = getProviderForMode fallbackMode
              in if unavailable env fallbackProvider then Inl (Error needsGeminiKey)
                 else Inr \<lparr>res_mode = fallbackMode, res_changed = True,
                        res_message = Some ''Fallback to Gemini because OpenRouter API key is missing''\<rparr>))"

section \<open>The stream encoder\<close>

text \<open>
  \<open>normalizeMarkdownContent\<close>: \<open>content.replace(/\\n/g, '\n')\<close> turns every backslash
  followed by \<open>n\<close> into a line feed, scanning from the left.
\<close>

fun normalizeMarkdownContent :: "string \<Rightarrow> string" where
  "normalizeMarkdownContent (a # b # cs) =
     (if a = CHR 0x5C \<and> b = CHR ''n'' then CHR 0x0A # normalizeMarkdownContent cs
      else a # normalizeMarkdownContent (b # cs))"
| "normalizeMarkdownContent cs = cs"

text \<open>JSON values, for the parts of a payload that the code passes on unread.\<close>

datatype json =
    JNull | JBool bool | JNum int | JStr string | JArr "json list" | JObj "(string \<times> json) list"

text \<open>
  The payload handed to \<open>sendMessage\<close>: the fields the function reads, and the other
  properties. An absent property is \<open>None\<close>.
\<close>

record payload =
  p_type :: string
  p_content :: "string option"
  p_threadId :: "string option"
  p_threadItemId :: "string option"
  p_parentThreadItemId :: "string option"
  p_rest :: "(string \<times> json) list"

text \<open>
  \<open>JSON.stringify\<close> on a string, and on an object whose properties are strings or
  undefined (an undefined property is left out), as the error frame needs it.
\<close>

definition hexDigit :: "nat \<Rightarrow> char" where
  "hexDigit d = ''0123456789abcdef'' ! d"

definition escapeChar :: "char \<Rightarrow> string" where
  "escapeChar c =
     (let n = code_unit c in
      if n = 8 then [CHR 0x5C, CHR ''b'']
      else if n = 9 then [CHR 0x5C, CHR ''t'']
      else if n = 10 then [CHR 0x5C, CHR ''n'']
      else if n = 12 then [CHR 0x5C, CHR ''f'']
      else if n = 13 then [CHR 0x5C, CHR ''r'']
      else if n = 34 then [CHR 0x5C, CHR 0x22]
      else if n = 92 then [CHR 0x5C, CHR 0x5C]
      else if n < 32 then [CHR 0x5C, CHR ''u'', CHR ''0'', CHR ''0'', hexDigit (n div 16), hexDigit (n mod 16)]
      else [c])"

definition quoteJSONString :: "string \<Rightarrow> string" where
  "quoteJSONString s = CHR 0x22 # concat (map escapeChar s) @ [CHR 0x22]"

fun propertyList :: "(string \<times> string option) list \<Rightarrow> string list" where
  "propertyList [] = []"
| "propertyList ((k, None) # kvs) = propertyList kvs"
| "propertyList ((k, Some v) # kvs) =
     (quoteJSONString k @ '':'' @ quoteJSONString v) # propertyList kvs"

fun joinWith :: "string \<Rightarrow> string list \<Rightarrow> string" where
  "joinWith sep [] = []"
| "joinWith sep [x] = x"
| "joinWith sep (x # y # ys) = x @ sep @ joinWith sep (y # ys)"

definition stringifyObject :: "(string \<times> string option) list \<Rightarrow> string" where
  "stringifyObject kvs = ''{'' @ joinWith '','' (propertyList kvs) @ ''}''"

text \<open>
  The controller with its guard: the mark \<open>__closed\<close>, the error that \<open>enqueue\<close> throws in
  the present state of the stream (\<open>None\<close> when the stream takes chunks), and the chunks
  enqueued so far. A chunk is written as the text it encodes; the chunk of
  \<open>new Uint8Array(0)\<close> is the empty text. \<open>logged\<close> lists the messages given to
  \<open>logger.error\<close>.
\<close>

record GuardedStreamController =
  closed_mark :: bool
  enqueue_throws :: "js_error option"
  chunks :: "string list"
  logged :: "string list"

definition enqueue :: "GuardedStreamController \<Rightarrow> string \<Rightarrow> js_error + GuardedStreamController" where
  "enqueue controller chunk =
     (case enqueue_throws controller of
        Some e \<Rightarrow> Inl e
      | None \<Rightarrow> Inr (controller\<lparr>chunks := chunks controller @ [chunk]\<rparr>))"

text \<open>\<open>error instanceof TypeError && error.message.toLowerCase().includes('invalid state')\<close>\<close>

fun isControllerClosedError :: "js_error \<Rightarrow> bool" where
  "isControllerClosedError (TypeError msg) = includesStr (toLowerCase msg) ''invalid state''"
| "isControllerClosedError (Error msg) = False"
| "isControllerClosedError (MissingProviderKeyError p) = False"

definition lineFeed :: string where
  "lineFeed = [CHR 0x0A]"

text \<open>The text of one frame: \<open>`event: ${type}\ndata: ${json}\n\n`\<close>.\<close>

definition frameText :: "string \<Rightarrow> string \<Rightarrow> string" where
  "frameText eventName data = ''event: '' @ eventName @ lineFeed @ ''data: '' @ data @ lineFeed @ lineFeed"

definition errorMessage :: "payload \<Rightarrow> string" where
  "errorMessage pl =
     frameText ''done''
       (stringifyObject
         [(''type'', Some ''done''),
          (''status'', Some ''error''),
          (''error'', Some ''Failed to serialize payload''),
          (''threadId'', p_threadId pl),
          (''threadItemId'', p_threadItemId pl),
          (''parentThreadItemId'', p_parentThreadItemId pl)])"

text \<open>
  The payload after \<open>payload.content = normalizeMarkdownContent(payload.content)\<close>, which
  the source does for a content that is a string and not empty. Then the body of the
  \<open>try\<close> block: the controller as the block leaves it, and the error it throws, if any. The first argument stands for
  \<open>JSON.stringify(sanitizePayloadForJSON(payload))\<close>, which yields the text or throws
  (\<open>sanitizePayloadForJSON\<close> belongs to a module outside the sources at hand).
\<close>

definition normalizedPayload :: "payload \<Rightarrow> payload" where
  "normalizedPayload pl =
     (case p_content pl of
        Some c \<Rightarrow> if c \<noteq> [] then pl\<lparr>p_content := Some (normalizeMarkdownContent c)\<rparr> else pl
      | None \<Rightarrow> pl)"

definition sendAttempt ::
  "(payload \<Rightarrow> js_error + string) \<Rightarrow> GuardedStreamController \<Rightarrow> payload
     \<Rightarrow> GuardedStreamController \<times> js_error option" where
  "sendAttempt stringifySanitized controller pl =
     (let pl1 = normalizedPayload pl
      in case stringifySanitized pl1 of
           Inl e \<Rightarrow> (controller, Some e)
         | Inr data \<Rightarrow>
             (case enqueue controller (frameText (p_type pl1) data) of
                Inl e \<Rightarrow> (controller, Some e)
              | Inr c1 \<Rightarrow>
                  (case enqueue c1 [] of
                     Inl e \<Rightarrow> (c1, Some e)
                   | Inr c2 \<Rightarrow> (c2, None))))"

text \<open>
  \<open>sendMessage(controller, encoder, payload)\<close>. The result is the controller after the
  call, or the error the call lets through to its caller.
\<close>

definition sendMessage ::
  "(payload \<Rightarrow> js_error + string) \<Rightarrow> GuardedStreamController \<Rightarrow> payload
     \<Rightarrow> js_error + GuardedStreamController" where
  "sendMessage stringifySanitized controller pl =
     (if closed_mark controller then Inr controller
      else case sendAttempt stringifySanitized controller pl of
        (c, None) \<Rightarrow> Inr c
      | (c, Some error) \<Rightarrow>
          if isControllerClosedError error then Inr (c\<lparr>closed_mark := True\<rparr>)
          else
            let c1 = c\<lparr>logged := logged c @ [''Error serializing message payload'']\<rparr>
            in case enqueue c1 (errorMessage pl) of
                 Inr c2 \<Rightarrow> Inr c2
               | Inl fallbackError \<Rightarrow>
                   if isControllerClosedError fallbackError then Inr (c1\<lparr>closed_mark := True\<rparr>)
                   else Inr (c1\<lparr>logged := logged c1 @ [''Failed to send serialization error payload'']\<rparr>))"


section \<open>The stream consumer\<close>

text \<open>
  Times are milliseconds, as \<open>Date.now()\<close> counts them. A property that a JavaScript
  object may lack has an option type; \<open>None\<close> is \<open>undefined\<close>.
\<close>

record Answer =
  answer_text :: "string option"
  answer_finalText :: "string option"
  answer_status :: "string option"
  answer_rest :: "(string \<times> json) list"

text \<open>The \<open>answer\<close> property of an incoming event, as the reducer takes it apart.\<close>

record IncomingAnswer =
  incomingText :: "string option"
  incomingFinalText :: "string option"
  incomingFullText :: "string option"
  incomingThinkingProcess :: "string option"
  incomingStatus :: "string option"
  incomingRest :: "(string \<times> json) list"

record Metrics =
  totalTokens :: "int option"
  durationMs :: "int option"

text \<open>
  A thread item. \<open>ti_fields\<close> holds the properties that an event writes under its own
  name (\<open>steps\<close>, \<open>sources\<close>, \<open>error\<close>, \<open>status\<close>, \<open>suggestions\<close>, \<open>toolCalls\<close>,
  \<open>toolResults\<close>, \<open>object\<close>).
\<close>

record ThreadItem =
  ti_id :: string
  ti_threadId :: string
  ti_parentId :: "string option"
  ti_branchRootId :: "string option"
  ti_query :: string
  ti_mode :: "string option"
  ti_createdAt :: int
  ti_updatedAt :: int
  ti_metadata :: "(string \<times> json) list option"
  ti_answer :: "Answer option"
  ti_thinkingProcess :: "string option"
  ti_tokensUsed :: "int option"
  ti_generationDurationMs :: "int option"
  ti_fields :: "(string \<times> json) list"

text \<open>The parsed data of one frame.\<close>

record EventData =
  ev_type :: "string option"
  ev_status :: "string option"
  ev_error :: "string option"
  ev_threadId :: "string option"
  ev_threadItemId :: "string option"
  ev_parentThreadItemId :: "string option"
  ev_query :: "string option"
  ev_mode :: "string option"
  ev_requestedMode :: "string option"
  ev_modeSelectionReason :: "string option"
  ev_answer :: "IncomingAnswer option"
  ev_metrics :: "Metrics option"
  ev_fields :: "(string \<times> json) list"

text \<open>
  \<open>eventData[name]\<close>: the properties \<open>status\<close> and \<open>error\<close> have fields of their own,
  the others are in \<open>ev_fields\<close>.
\<close>

definition eventProperty :: "EventData \<Rightarrow> string \<Rightarrow> json option" where
  "eventProperty eventData name =
     (if name = ''status'' then map_option JStr (ev_status eventData)
      else if name = ''error'' then map_option JStr (ev_error eventData)
      else map_of (ev_fields eventData) name)"

text \<open>A string that JavaScript takes for true: present and not empty.\<close>

fun truthy :: "string option \<Rightarrow> bool" where
  "truthy None = False"
| "truthy (Some s) = (s \<noteq> [])"

text \<open>\<open>a || b\<close> on two strings that may be absent.\<close>

definition orElse :: "string option \<Rightarrow> string option \<Rightarrow> string option" where
  "orElse a b = (if truthy a then a else b)"

fun truthyJson :: "json option \<Rightarrow> bool" where
  "truthyJson None = False"
| "truthyJson (Some JNull) = False"
| "truthyJson (Some (JBool b)) = b"
| "truthyJson (Some (JNum n)) = (n \<noteq> 0)"
| "truthyJson (Some (JStr s)) = (s \<noteq> [])"
| "truthyJson (Some (JArr xs)) = True"
| "truthyJson (Some (JObj kvs)) = True"

text \<open>\<open>typeof x === 'string' && x.trim().length > 0\<close>\<close>

fun hasText :: "string option \<Rightarrow> bool" where
  "hasText None = False"
| "hasText (Some s) = (length (trim s) > 0)"

text \<open>\<open>{...a, ...b}\<close> on the further properties: those of \<open>b\<close> win.\<close>

definition spread :: "(string \<times> json) list \<Rightarrow> (string \<times> json) list \<Rightarrow> (string \<times> json) list" where
  "spread a b = fold (\<lambda>(k, v) acc. AList.update k v acc) b a"

text \<open>Writing a property that may be undefined.\<close>

definition setField :: "string \<Rightarrow> json option \<Rightarrow> (string \<times> json) list \<Rightarrow> (string \<times> json) list" where
  "setField k v kvs = (case v of None \<Rightarrow> AList.delete k kvs | Some x \<Rightarrow> AList.update k x kvs)"

definition emptyIncomingAnswer :: IncomingAnswer where
  "emptyIncomingAnswer =
     \<lparr>incomingText = None, incomingFinalText = None, incomingFullText = None,
      incomingThinkingProcess = None, incomingStatus = None, incomingRest = []\<rparr>"

text \<open>
  The merge of an incoming answer into the answer of the previous item
  (\<open>nextAnswer\<close> of \<open>handleThreadItemUpdate\<close>).
\<close>

definition mergeAnswer :: "Answer option \<Rightarrow> IncomingAnswer \<Rightarrow> Answer" where
  "mergeAnswer prevAnswer incoming =
     (let previousAnswer = (case prevAnswer of
              Some a \<Rightarrow> a
            | None \<Rightarrow> \<lparr>answer_text = Some [], answer_finalText = None, answer_status = None,
                       answer_rest = []\<rparr>);
          previousText = (case answer_text previousAnswer of Some t \<Rightarrow> t | None \<Rightarrow> []);
          hasFinalText = hasText (incomingFinalText incoming);
          hasFullText = hasText (incomingFullText incoming);
          resolvedFinalText =
            (if hasFinalText then the (incomingFinalText incoming)
             else if hasFullText then the (incomingFullText incoming)
             else if truthy (answer_finalText previousAnswer) then the (answer_finalText previousAnswer)
             else previousText);
          resolvedText =
            (if hasFinalText then the (incomingFinalText incoming)
             else if hasFullText then the (incomingFullText incoming)
             else previousText @ (case incomingText incoming of Some t \<Rightarrow> t | None \<Rightarrow> []))
      in \<lparr>answer_text = Some resolvedText,
          answer_finalText = Some resolvedFinalText,
          answer_status = (case incomingStatus incoming of
                             Some st \<Rightarrow> Some st
                           | None \<Rightarrow> answer_status previousAnswer),
          answer_rest = spread (answer_rest previousAnswer) (incomingRest incoming)\<rparr>)"

text \<open>
  A property of the previous item, which is the empty object when the map has no entry.
\<close>

definition prevField :: "ThreadItem option \<Rightarrow> (ThreadItem \<Rightarrow> 'a option) \<Rightarrow> 'a option" where
  "prevField prevItem field = (case prevItem of None \<Rightarrow> None | Some i \<Rightarrow> field i)"

text \<open>One call of the store's \<open>updateThreadItem\<close>, with the flag \<open>persistToDB\<close> it is given.\<close>

datatype StoreCall =
    ItemUpdate string ThreadItem bool
  | StatusUpdate string string string "string option" bool

fun persistToDB :: "StoreCall \<Rightarrow> bool" where
  "persistToDB (ItemUpdate threadId item flag) = flag"
| "persistToDB (StatusUpdate threadId itemId st err flag) = flag"

text \<open>
  \<open>handleThreadItemUpdate\<close>: the new in-memory map of thread items and the call of
  \<open>updateThreadItem\<close> that the function makes. \<open>now\<close> is the time of the call.
\<close>

definition handleThreadItemUpdate ::
  "int \<Rightarrow> (string \<rightharpoonup> ThreadItem) \<Rightarrow> string \<Rightarrow> string \<Rightarrow> string \<Rightarrow> EventData \<Rightarrow> string option
     \<Rightarrow> bool \<Rightarrow> (string \<rightharpoonup> ThreadItem) \<times> StoreCall" where
  "handleThreadItemUpdate now threadItemMap threadId threadItemId eventType eventData
       parentThreadItemId shouldPersistToDB =
     (let prevItem = threadItemMap threadItemId;
          prevFields = (case prevItem of None \<Rightarrow> [] | Some i \<Rightarrow> ti_fields i);
          incomingAnswer =
            (case ev_answer eventData of Some a \<Rightarrow> a | None \<Rightarrow> emptyIncomingAnswer);
          incomingMetrics =
            (case ev_metrics eventData of
               Some m \<Rightarrow> m
             | None \<Rightarrow> \<lparr>totalTokens = None, durationMs = None\<rparr>);
          nextAnswer = mergeAnswer (prevField prevItem ti_answer) incomingAnswer;
          nextThinkingProcess =
            (if hasText (incomingThinkingProcess incomingAnswer)
             then incomingThinkingProcess incomingAnswer
             else prevField prevItem ti_thinkingProcess);
          m0 = (case prevField prevItem ti_metadata of Some md \<Rightarrow> md | None \<Rightarrow> []);
          m1 = (if truthy (ev_requestedMode eventData)
                then AList.update ''requestedMode'' (JStr (the (ev_requestedMode eventData))) m0
                else m0);
          nextMetadata =
            (if truthy (ev_modeSelectionReason eventData)
             then AList.update ''selectionReason'' (JStr (the (ev_modeSelectionReason eventData))) m1
             else m1);
          metadata = (if nextMetadata \<noteq> [] then Some nextMetadata else prevField prevItem ti_metadata);
          objectValue =
            (if truthyJson (eventProperty eventData ''object'')
             then eventProperty eventData ''object''
             else map_of prevFields ''object'');
          base =
            \<lparr>ti_id = threadItemId,
             ti_threadId = threadId,
             ti_parentId = orElse parentThreadItemId (prevField prevItem ti_parentId),
             ti_branchRootId =
               (if truthy (prevField prevItem ti_branchRootId) then prevField prevItem ti_branchRootId
                else if truthy parentThreadItemId then parentThreadItemId
                else Some threadItemId),
             ti_query =
               (if truthy (ev_query eventData) then the (ev_query eventData)
                else case prevItem of None \<Rightarrow> [] | Some i \<Rightarrow> ti_query i),
             ti_mode = orElse (ev_mode eventData) (prevField prevItem ti_mode),
             ti_createdAt = (case prevItem of None \<Rightarrow> now | Some i \<Rightarrow> ti_createdAt i),
             ti_updatedAt = now,
             ti_metadata = metadata,
             ti_answer = prevField prevItem ti_answer,
             ti_thinkingProcess = prevField prevItem ti_thinkingProcess,
             ti_tokensUsed = prevField prevItem ti_tokensUsed,
             ti_generationDurationMs = prevField prevItem ti_generationDurationMs,
             ti_fields = setField ''object'' objectValue prevFields\<rparr>;
          updatedItem =
            (if eventType = ''answer''
             then base\<lparr>ti_answer := Some nextAnswer, ti_thinkingProcess := nextThinkingProcess\<rparr>
             else if eventType = ''metrics''
             then base\<lparr>ti_tokensUsed :=
                         (case totalTokens incomingMetrics of
                            Some n \<Rightarrow> Some n
                          | None \<Rightarrow> prevField prevItem ti_tokensUsed),
                       ti_generationDurationMs :=
                         (case durationMs incomingMetrics of
                            Some n \<Rightarrow> Some n
                          | None \<Rightarrow> prevField prevItem ti_generationDurationMs)\<rparr>
             else base\<lparr>ti_fields :=
                         setField eventType (eventProperty eventData eventType)
                           (ti_fields base)\<rparr>)
      in (threadItemMap(threadItemId \<mapsto> updatedItem), ItemUpdate threadId updatedItem True))"

text \<open>
  What the in-memory map holds for an item: the answer text accumulated so far (empty
  when there is no item, no answer or no text yet) and the stored \<open>finalText\<close>.
\<close>

definition accumulatedText :: "(string \<rightharpoonup> ThreadItem) \<Rightarrow> string \<Rightarrow> string" where
  "accumulatedText items threadItemId =
     (case items threadItemId of
        None \<Rightarrow> []
      | Some item \<Rightarrow>
          (case ti_answer item of
             None \<Rightarrow> []
           | Some a \<Rightarrow> (case answer_text a of None \<Rightarrow> [] | Some t \<Rightarrow> t)))"

definition storedFinalText :: "(string \<rightharpoonup> ThreadItem) \<Rightarrow> string \<Rightarrow> string option" where
  "storedFinalText items threadItemId =
     (case items threadItemId of
        None \<Rightarrow> None
      | Some item \<Rightarrow> (case ti_answer item of None \<Rightarrow> None | Some a \<Rightarrow> answer_finalText a))"

text \<open>The loop of \<open>runAgent\<close> that reads the stream.\<close>

definition EVENT_TYPES :: "string list" where
  "EVENT_TYPES = [''steps'', ''sources'', ''answer'', ''error'', ''status'', ''suggestions'',
     ''toolCalls'', ''toolResults'', ''object'', ''metrics'']"

definition DB_UPDATE_INTERVAL :: int where
  "DB_UPDATE_INTERVAL = 1000"

record StreamState =
  lastDbUpdate :: int
  eventCount :: nat
  threadItemMap :: "string \<rightharpoonup> ThreadItem"
  storeCalls :: "StoreCall list"

text \<open>The loop starts with \<open>lastDbUpdate = Date.now()\<close> and no event counted.\<close>

definition startStream :: "int \<Rightarrow> (string \<rightharpoonup> ThreadItem) \<Rightarrow> StreamState" where
  "startStream now items =
     \<lparr>lastDbUpdate = now, eventCount = 0, threadItemMap = items, storeCalls = []\<rparr>"

text \<open>
  One frame whose event line and data line were found and whose data parsed: the event
  name, the data, and the time \<open>now\<close> at which the loop reaches it. An event of
  \<open>EVENT_TYPES\<close> goes to \<open>handleThreadItemUpdate\<close> with the throttle's verdict; the frame
  \<open>done\<close> drops the item from the in-memory map and reports the final status. (The
  request for a thread title after a complete run is left out.)
\<close>

definition onFrame :: "int \<Rightarrow> StreamState \<Rightarrow> string \<Rightarrow> EventData \<Rightarrow> StreamState" where
  "onFrame now st currentEvent data =
     (let st1 = st\<lparr>eventCount := eventCount st + 1\<rparr>
      in if currentEvent \<in> set EVENT_TYPES \<and> truthy (ev_threadId data)
              \<and> truthy (ev_threadItemId data)
         then
           let shouldPersistToDB = (now - lastDbUpdate st1 \<ge> DB_UPDATE_INTERVAL);
               (items, call) =
                 handleThreadItemUpdate now (threadItemMap st1) (the (ev_threadId data))
                   (the (ev_threadItemId data)) currentEvent data (ev_parentThreadItemId data)
                   shouldPersistToDB
           in st1\<lparr>threadItemMap := items,
                  storeCalls := storeCalls st1 @ [call],
                  lastDbUpdate := (if shouldPersistToDB then now else lastDbUpdate st1)\<rparr>
         else if currentEvent = ''done'' \<and> ev_type data = Some ''done''
         then
           let st2 = (if truthy (ev_threadItemId data)
                      then st1\<lparr>threadItemMap := (threadItemMap st1)(the (ev_threadItemId data) := None)\<rparr>
                      else st1);
               known = (truthy (ev_threadId data) \<and> truthy (ev_threadItemId data));
               report = (\<lambda>status err.
                  st2\<lparr>storeCalls := storeCalls st2 @
                        [StatusUpdate (the (ev_threadId data)) (the (ev_threadItemId data)) status err True]\<rparr>)
           in if ev_status data = Some ''error'' \<and> known
              then report ''ERROR''
                     (Some (if truthy (ev_error data) then the (ev_error data)
                            else ''Something went wrong. Please try again.''))
              else if ev_status data = Some ''aborted'' \<and> known then report ''ABORTED'' None
              else if ev_status data = Some ''complete'' \<and> known then report ''COMPLETED'' None
              else st2
         else st1)"

text \<open>The frames of a run, each with the time at which the loop reaches it.\<close>

fun onFrames :: "StreamState \<Rightarrow> (int \<times> string \<times> EventData) list \<Rightarrow> StreamState" where
  "onFrames st [] = st"
| "onFrames st ((now, currentEvent, data) # frames) = onFrames (onFrame now st currentEvent data) frames"

section \<open>The conversation store\<close>

subsection \<open>Branch groups\<close>

text \<open>
  Modelled from the spec: \<open>resolveBranchRootId\<close>, \<open>ensureBranchRootId\<close> and
  \<open>buildBranchGroups\<close> of the module \<open>branching-utils\<close>, which the store imports and
  which is not among the sources at hand. The spec (4.5): "group all thread-items by
  branchRootId; items without an explicit branchRootId default to rooting on themselves
  (root item) or their parentId (reply item)".
\<close>

definition resolveBranchRootId :: "ThreadItem \<Rightarrow> string" where
  "resolveBranchRootId item =
     (if truthy (ti_branchRootId item) then the (ti_branchRootId item)
      else if truthy (ti_parentId item) then the (ti_parentId item)
      else ti_id item)"


text \<open>
  Modelled from the spec: the groups as the list of the entries of the source's \<open>Map\<close>,
  one entry for every root id that an item resolves to, in the order in which the root
  ids first occur. The spec gives the grouping no order of its own, so the members of a
  group stand in the order of the item list.
\<close>

definition buildBranchGroups :: "ThreadItem list \<Rightarrow> (string \<times> ThreadItem list) list" where
  "buildBranchGroups items =
     map (\<lambda>rootId. (rootId, filter (\<lambda>item. resolveBranchRootId item = rootId) items))
       (rev (remdups (rev (map resolveBranchRootId items))))"

subsection \<open>The state and \<open>pruneBranchSelections\<close>\<close>

text \<open>
  The part of the store's state that the branch bookkeeping reads and writes: the
  threads (by their ids), the items of the thread on display, the branch selections and
  the id of the current thread. The object \<open>branchSelections\<close> is the list of its
  entries, in the order of their insertion.
\<close>

record State =
  threads :: "string list"
  threadItems :: "ThreadItem list"
  branchSelections :: "(string \<times> string) list"
  currentThreadId :: "string option"






subsection \<open>The mutations of the item set\<close>

text \<open>
  Each definition is the state update that the action of that name makes
  (its \<open>set(state => ...)\<close>); the writes to the database and the notices to other tabs
  are not part of the state. \<open>createThreadItem\<close> and \<open>updateThreadItem\<close> take the item
  that the action has built and normalised.
\<close>



















text \<open>The group of a root id: the members the source finds under \<open>groups.get(rootId)\<close>.\<close>

definition branchGroup :: "State \<Rightarrow> string \<Rightarrow> ThreadItem list" where
  "branchGroup state rootId =
     (case map_of (buildBranchGroups (threadItems state)) rootId of Some grp \<Rightarrow> grp | None \<Rightarrow> [])"



subsection \<open>Writing thread items to the database\<close>

definition DB_UPDATE_THROTTLE :: int where
  "DB_UPDATE_THROTTLE = 1000"







text \<open>
  The store's action \<open>updateThreadItem(threadId, threadItem)\<close>, for the two kinds of call
  that the stream consumer makes. With a stored item of that id the action builds
  \<open>{...existingItem, ...threadItem, threadId, updatedAt: new Date()}\<close>; without one,
  \<open>{id, threadId, createdAt: new Date(), updatedAt: new Date(), ...threadItem}\<close>. A call
  of \<open>handleThreadItemUpdate\<close> carries the identifying properties, the query, the mode
  and the metadata of its item in any case; of the answer, the thinking process, the two
  metrics and the properties in \<open>ti_fields\<close> it carries those its item has, and the
  stored item keeps the others (a property that the call holds as undefined counts as
  not carried: the records do not tell the two apart). A status call carries the id, the
  status and perhaps an error.
\<close>









section \<open>Sample data\<close>

text \<open>Environments, items and events on which the theorems are tried.\<close>

definition bothKeys :: environment where
  "bothKeys = \<lparr>GEMINI_API_KEY = ''g-key'', OPENROUTER_API_KEY = ''or-key'', AI_API_KEYS = (\<lambda>p. [])\<rparr>"

definition onlyOpenRouterKey :: environment where
  "onlyOpenRouterKey = \<lparr>GEMINI_API_KEY = [], OPENROUTER_API_KEY = ''or-key'', AI_API_KEYS = (\<lambda>p. [])\<rparr>"

definition noKeys :: environment where
  "noKeys = \<lparr>GEMINI_API_KEY = [], OPENROUTER_API_KEY = [], AI_API_KEYS = (\<lambda>p. [])\<rparr>"

text \<open>
  An \<open>answer\<close> event for the item \<open>item-1\<close> of the thread \<open>thread-1\<close>, with the given
  \<open>text\<close>, \<open>finalText\<close> and \<open>fullText\<close>.
\<close>

definition answerEvent :: "string option \<Rightarrow> string option \<Rightarrow> string option \<Rightarrow> EventData" where
  "answerEvent t finalT fullT =
     \<lparr>ev_type = Some ''answer'', ev_status = None, ev_error = None,
      ev_threadId = Some ''thread-1'', ev_threadItemId = Some ''item-1'',
      ev_parentThreadItemId = None, ev_query = Some ''hi'', ev_mode = None,
      ev_requestedMode = None, ev_modeSelectionReason = None,
      ev_answer = Some \<lparr>incomingText = t, incomingFinalText = finalT, incomingFullText = fullT,
                        incomingThinkingProcess = None, incomingStatus = None, incomingRest = []\<rparr>,
      ev_metrics = None, ev_fields = []\<rparr>"

text \<open>
  A controller whose stream takes chunks, one that was marked closed, one whose stream
  throws the error of a closed stream, and a payload.
\<close>

definition openController :: GuardedStreamController where
  "openController = \<lparr>closed_mark = False, enqueue_throws = None, chunks = [], logged = []\<rparr>"



definition answerPayload :: payload where
  "answerPayload =
     \<lparr>p_type = ''answer'', p_content = None, p_threadId = Some ''thread-1'',
      p_threadItemId = Some ''item-1'', p_parentThreadItemId = None, p_rest = []\<rparr>"





section \<open>Properties of the mode resolver\<close>

lemma two_hits:
  assumes "k1 \<in> set ks" "k2 \<in> set ks" "k1 \<noteq> k2" "P k1" "P k2"
  shows "2 \<le> length (filter P ks)"
proof -
  have "{k1, k2} \<subseteq> set (filter P ks)" using assms by auto
  then have "card {k1, k2} \<le> card (set (filter P ks))" by (intro card_mono) auto
  also have "\<dots> \<le> length (filter P ks)" by (rule card_length)
  finally show ?thesis using \<open>k1 \<noteq> k2\<close> by simp
qed

lemma startsWith_map: "startsWith s w \<Longrightarrow> startsWith (map f s) (map f w)"
  by (induction s w rule: startsWith.induct) auto

lemma includesStr_map: "includesStr s w \<Longrightarrow> includesStr (map f s) (map f w)"
proof (induction s)
  case Nil
  then show ?case by simp
next
  case (Cons c cs)
  then show ?case using startsWith_map[of "c # cs" w f] by auto
qed

lemma codeIndicators_lower: "list_all (\<lambda>k. toLowerCase k = k) codeIndicators"
  by code_simp

text \<open>
  A query that holds a code keyword as it is written holds it after \<open>toLowerCase\<close> too,
  so the test of the resolver covers it.
\<close>

lemma includesStr_toLowerCase:
  assumes "k \<in> set codeIndicators" "includesStr query k"
  shows "includesStr (toLowerCase query) k"
proof -
  have "toLowerCase k = k" using codeIndicators_lower assms(1) by (simp add: list_all_iff)
  moreover have "includesStr (toLowerCase query) (toLowerCase k)"
    unfolding toLowerCase_def by (rule includesStr_map[OF assms(2)])
  ultimately show ?thesis by simp
qed

text \<open>
  C7, as the claim states it, fails: a query with two code keywords and no attachment that
  also holds one of the image words is sent to the multimodal mode, since the image test
  comes first.
\<close>

theorem code_keywords_with_image_word_counterexample:
  "''code'' \<in> set codeIndicators \<and> ''debug'' \<in> set codeIndicators
   \<and> includesStr ''debug the code in this screenshot'' ''code''
   \<and> includesStr ''debug the code in this screenshot'' ''debug''
   \<and> selectModelForQuery 2026 ''debug the code in this screenshot'' False = GEMINI_2_5_FLASH"
  by code_simp

text \<open>
  C7, amended: for every query that holds at least two distinct code keywords (in any
  mix of capital and small letters), that has no image attachment and in which the image
  pattern finds no match, \<open>selectModelForQuery\<close> returns \<open>DEEPSEEK_CHAT_V3_1\<close>, whatever
  the year.
\<close>

theorem code_keywords_select_coding_mode:
  assumes "k1 \<in> set codeIndicators" "k2 \<in> set codeIndicators" "k1 \<noteq> k2"
    and "includesStr (toLowerCase query) k1" "includesStr (toLowerCase query) k2"
    and "\<not> regexTest True imagePattern query"
  shows "selectModelForQuery currentYear query False = DEEPSEEK_CHAT_V3_1"
proof -
  have "2 \<le> score codeIndicators (toLowerCase query)"
    unfolding score_def using assms(1-5) by (rule two_hits)
  then show ?thesis using assms(6) by (simp add: selectModelForQuery_def Let_def)
qed

theorem code_keywords_select_coding_mode_witness:
  "selectModelForQuery 2026 ''Debug this CODE'' False = DEEPSEEK_CHAT_V3_1"
proof -
  have h1: "''code'' \<in> set codeIndicators" by (simp add: codeIndicators_def)
  have h2: "''debug'' \<in> set codeIndicators" by (simp add: codeIndicators_def)
  have h3: "''code'' \<noteq> ''debug''" by simp
  have h4: "includesStr (toLowerCase ''Debug this CODE'') ''code''" by code_simp
  have h5: "includesStr (toLowerCase ''Debug this CODE'') ''debug''" by code_simp
  have h6: "\<not> regexTest True imagePattern ''Debug this CODE''" by code_simp
  show ?thesis by (rule code_keywords_select_coding_mode[OF h1 h2 h3 h4 h5 h6])
qed

text \<open>
  C8: for the query "fix this bug in my python function" without an attachment the
  resolver returns the coding mode, but \<open>getModelSelectionReason\<close> then gives the reason
  for general queries, not the one for coding: it looks for the word "code" only, while
  the resolver chose the mode for the keywords "bug", "python" and "function".
\<close>

theorem python_bug_query_reason:
  "selectModelForQuery 2026 ''fix this bug in my python function'' False = DEEPSEEK_CHAT_V3_1
   \<and> getModelSelectionReason ''fix this bug in my python function'' DEEPSEEK_CHAT_V3_1
       = ''Balanced performance for general queries''"
  by code_simp

lemma matchAlt_digit:
  "isDigit d \<Longrightarrow> matchAlt False [Lit a, Lit b, Lit c, Lit d] prev s
     \<Longrightarrow> matchAlt False [Lit a, Lit b, Lit c, DigitClass] prev s"
  by (cases s; simp; cases "tl s"; simp; cases "tl (tl s)"; simp; cases "tl (tl (tl s))"; simp)

lemma showInt_decade:
  assumes "2020 \<le> y" "y \<le> 2029"
  shows "\<exists>d. isDigit d \<and> showInt y = [CHR ''2'', CHR ''0'', CHR ''2'', d]"
proof -
  from assms have "y = 2020 \<or> y = 2021 \<or> y = 2022 \<or> y = 2023 \<or> y = 2024
    \<or> y = 2025 \<or> y = 2026 \<or> y = 2027 \<or> y = 2028 \<or> y = 2029" by arith
  then show ?thesis
    by (elim disjE) (simp_all add: showInt_def digitChar_def isDigit_def code_unit_def)
qed

lemma matchHere_recentYear:
  assumes "2021 \<le> y" "y \<le> 2029"
  shows "matchHere False (recentYearPattern y) prev s
       = matchHere False [[Lit CHR ''2'', Lit CHR ''0'', Lit CHR ''2'', DigitClass]] prev s"
proof -
  obtain d where d: "isDigit d" "showInt y = [CHR ''2'', CHR ''0'', CHR ''2'', d]"
    using showInt_decade[of y] assms by auto
  obtain e where e: "isDigit e" "showInt (y - 1) = [CHR ''2'', CHR ''0'', CHR ''2'', e]"
    using showInt_decade[of "y - 1"] assms by auto
  show ?thesis
    using matchAlt_digit[OF d(1), of "CHR ''2''" "CHR ''0''" "CHR ''2''" prev s]
      matchAlt_digit[OF e(1), of "CHR ''2''" "CHR ''0''" "CHR ''2''" prev s]
    by (auto simp: matchHere_def recentYearPattern_def lits_def d(2) e(2))
qed

text \<open>
  From 2021 to 2029 the two years that the pattern takes from the clock lie in the
  decade that its third alternative covers anyway.
\<close>

lemma regexTest_recentYear:
  assumes "2021 \<le> y" "y \<le> 2029"
  shows "regexTest False (recentYearPattern y) s
       = regexTest False [[Lit CHR ''2'', Lit CHR ''0'', Lit CHR ''2'', DigitClass]] s"
proof -
  have "searchFrom False (recentYearPattern y) prev s
      = searchFrom False [[Lit CHR ''2'', Lit CHR ''0'', Lit CHR ''2'', DigitClass]] prev s"
    for prev
    by (induction s arbitrary: prev) (simp_all add: matchHere_recentYear[OF assms])
  then show ?thesis by (simp add: regexTest_def)
qed

text \<open>
  C9, as the claim states it, fails: the result depends on the year that the function
  reads from the clock. The same query without attachment gets the fast default mode in
  2026 and the mode for recent events in 2030.
\<close>

theorem resolver_depends_on_year_counterexample:
  "selectModelForQuery 2026 ''events in 2030'' False = GEMINI_2_5_FLASH
   \<and> selectModelForQuery 2030 ''events in 2030'' False = LONGCAT_FLASH_CHAT"
  by code_simp

text \<open>
  C9, amended: the mode is a function of the query, the attachment flag and the calendar
  year read from the clock, and of nothing else; for any two years from 2021 to 2029 it
  returns the same mode on the same query and flag.
\<close>

theorem resolver_same_mode_within_decade:
  assumes "2021 \<le> y1" "y1 \<le> 2029" "2021 \<le> y2" "y2 \<le> 2029"
  shows "selectModelForQuery y1 query hasImage = selectModelForQuery y2 query hasImage"
  by (simp add: selectModelForQuery_def Let_def regexTest_recentYear[OF assms(1,2)]
      regexTest_recentYear[OF assms(3,4)])

theorem resolver_same_mode_within_decade_witness:
  "selectModelForQuery 2026 ''what happened in 2027'' False
     = selectModelForQuery 2027 ''what happened in 2027'' False"
  by (rule resolver_same_mode_within_decade) simp_all

section \<open>Properties of the provider check\<close>

lemma getProviderForMode_cases:
  "getProviderForMode m =
     Some (if m \<in> {GLM_4_5_AIR, DEEPSEEK_CHAT_V3_1, DEEPSEEK_R1, LONGCAT_FLASH_CHAT, GPT_OSS_20B,
                    DOLPHIN_MISTRAL_24B_VENICE} then OPENROUTER else GOOGLE)"
  by (cases m) (simp_all add: getProviderForMode_def models_def)

lemma selectOpenRouterFallback_range:
  "selectOpenRouterFallback y q \<in> {DEEPSEEK_CHAT_V3_1, DEEPSEEK_R1, LONGCAT_FLASH_CHAT, GLM_4_5_AIR}"
  by (simp add: selectOpenRouterFallback_def Let_def)

lemma selectGeminiFallback_range:
  "selectGeminiFallback q img \<in> {GEMINI_2_5_PRO, GEMINI_2_5_FLASH}"
  by (simp add: selectGeminiFallback_def Let_def)

lemma fallback_openrouter: "getProviderForMode (selectOpenRouterFallback y q) = Some OPENROUTER"
  using selectOpenRouterFallback_range[of y q] by (auto simp: getProviderForMode_cases)

lemma fallback_gemini: "getProviderForMode (selectGeminiFallback q img) = Some GOOGLE"
  using selectGeminiFallback_range[of q img] by (auto simp: getProviderForMode_cases)

text \<open>The function as a table over the provider of the mode and the keys at hand.\<close>

lemma ensureProviderAvailability_table:
  assumes "getProviderForMode m = Some p"
  shows "ensureProviderAvailability env y m q img =
    (if getProviderApiKey env p \<noteq> []
     then Inr \<lparr>res_mode = m, res_changed = False, res_message = None\<rparr>
     else if p = GOOGLE then
       (if img then Inl (Error imageNeedsGeminiKey)
        else if getProviderApiKey env OPENROUTER = [] then Inl (Error needsOneProvider)
        else Inr \<lparr>res_mode = selectOpenRouterFallback y q, res_changed = True,
                 res_message = Some ''Fallback to OpenRouter because Gemini API key is missing''\<rparr>)
     else
       (if getProviderApiKey env GOOGLE = [] then Inl (Error needsGeminiKey)
        else Inr \<lparr>res_mode = selectGeminiFallback q img, res_changed = True,
                 res_message = Some ''Fallback to Gemini because OpenRouter API key is missing''\<rparr>))"
  using assms
  by (cases p)
     (auto simp: ensureProviderAvailability_def fallback_openrouter fallback_gemini
       unavailable_def Let_def)

text \<open>
  C6, as the claim states it, fails: what the function raises when no provider has a key
  is a plain \<open>Error\<close> with a message, not an error of the class
  \<open>MissingProviderKeyError\<close>, which \<open>getProviderInstance\<close> throws for the same
  environment.
\<close>

theorem ensureProviderAvailability_plain_error_counterexample:
  "ensureProviderAvailability noKeys 2026 GEMINI_2_5_FLASH ''hello'' False = Inl (Error needsOneProvider)
   \<and> ensureProviderAvailability noKeys 2026 GEMINI_2_5_FLASH ''hello'' False
        \<noteq> Inl (MissingProviderKeyError GOOGLE)
   \<and> ensureProviderAvailability noKeys 2026 GEMINI_2_5_FLASH ''hello'' False
        \<noteq> Inl (MissingProviderKeyError OPENROUTER)
   \<and> getProviderInstance noKeys GOOGLE = Inl (MissingProviderKeyError GOOGLE)"
  by (simp add: ensureProviderAvailability_table[OF getProviderForMode_cases] getProviderInstance_def
      getProviderApiKey_def noKeys_def)

text \<open>
  C6, amended: let \<open>p\<close> be the provider behind the mode (every mode has one). With a key
  for \<open>p\<close> the mode comes back unchanged, \<open>changed = false\<close>, no message. Without a key
  for \<open>p\<close>, whatever the function returns is a substitute: \<open>changed = true\<close>, a message,
  and a mode of another provider that has a key; and it does return one when the other
  provider has a key, unless an image is attached to a mode of Google. When no provider
  has a key, and when an image is attached and neither the mode's provider nor Google,
  the provider that serves images, has a key, the function raises a plain \<open>Error\<close> whose
  message names the credential to set: for a mode of Google the message about images if
  one is attached and the message that one provider is needed otherwise, for a mode of
  OpenRouter the message that a Gemini key is needed. It never raises an error of the
  class \<open>MissingProviderKeyError\<close>, nor a \<open>TypeError\<close>.
\<close>

theorem ensureProviderAvailability_contract:
  assumes "getProviderForMode m = Some p"
  shows
    "(getProviderApiKey env p \<noteq> [] \<longrightarrow>
        ensureProviderAvailability env y m q img
          = Inr \<lparr>res_mode = m, res_changed = False, res_message = None\<rparr>)
   \<and> (getProviderApiKey env p = [] \<longrightarrow>
        (\<forall>a. ensureProviderAvailability env y m q img = Inr a \<longrightarrow>
           res_changed a \<and> res_message a \<noteq> None
           \<and> (\<exists>p'. getProviderForMode (res_mode a) = Some p' \<and> p' \<noteq> p
                    \<and> getProviderApiKey env p' \<noteq> [])))
   \<and> (getProviderApiKey env p = [] \<and> \<not> (p = GOOGLE \<and> img)
        \<and> (\<forall>p'. p' \<noteq> p \<longrightarrow> getProviderApiKey env p' \<noteq> []) \<longrightarrow>
        (\<exists>a. ensureProviderAvailability env y m q img = Inr a))
   \<and> ((\<forall>p'. getProviderApiKey env p' = []) \<longrightarrow>
        ensureProviderAvailability env y m q img
          = Inl (Error (if p = GOOGLE then (if img then imageNeedsGeminiKey else needsOneProvider)
                        else needsGeminiKey)))
   \<and> (img \<and> getProviderApiKey env p = [] \<and> getProviderApiKey env GOOGLE = [] \<longrightarrow>
        ensureProviderAvailability env y m q img
          = Inl (Error (if p = GOOGLE then imageNeedsGeminiKey else needsGeminiKey)))
   \<and> (\<forall>p'. ensureProviderAvailability env y m q img \<noteq> Inl (MissingProviderKeyError p'))
   \<and> (\<forall>msg. ensureProviderAvailability env y m q img \<noteq> Inl (TypeError msg))"
proof -
  have other': "p \<noteq> GOOGLE \<Longrightarrow> p = OPENROUTER"
    by (cases p) auto
  show ?thesis
    unfolding ensureProviderAvailability_table[OF assms]
    using other'
    by (auto simp: fallback_openrouter fallback_gemini)
qed

theorem ensureProviderAvailability_contract_witness:
  "ensureProviderAvailability bothKeys 2026 GEMINI_2_5_FLASH ''hello'' False
      = Inr \<lparr>res_mode = GEMINI_2_5_FLASH, res_changed = False, res_message = None\<rparr>
   \<and> (\<exists>a. ensureProviderAvailability onlyOpenRouterKey 2026 GEMINI_2_5_FLASH ''hello'' False = Inr a)
   \<and> ensureProviderAvailability noKeys 2026 GEMINI_2_5_FLASH ''hello'' False
       = Inl (Error needsOneProvider)
   \<and> ensureProviderAvailability onlyOpenRouterKey 2026 GEMINI_2_5_FLASH ''hello'' True
       = Inl (Error imageNeedsGeminiKey)"
proof -
  have p: "getProviderForMode GEMINI_2_5_FLASH = Some GOOGLE"
    by (simp add: getProviderForMode_cases)
  have k: "getProviderApiKey bothKeys GOOGLE \<noteq> []"
    "getProviderApiKey onlyOpenRouterKey GOOGLE = []"
    "\<And>p'. p' \<noteq> GOOGLE \<Longrightarrow> getProviderApiKey onlyOpenRouterKey p' \<noteq> []"
    "\<And>p'. getProviderApiKey noKeys p' = []"
    subgoal by (simp add: getProviderApiKey_def bothKeys_def)
    subgoal by (simp add: getProviderApiKey_def onlyOpenRouterKey_def)
    subgoal for p' by (cases p') (simp_all add: getProviderApiKey_def onlyOpenRouterKey_def)
    subgoal for p' by (cases p') (simp_all add: getProviderApiKey_def noKeys_def)
    done
  show ?thesis
    using ensureProviderAvailability_contract[OF p, of bothKeys 2026 "''hello''" False]
      ensureProviderAvailability_contract[OF p, of onlyOpenRouterKey 2026 "''hello''" False]
      ensureProviderAvailability_contract[OF p, of noKeys 2026 "''hello''" False]
      ensureProviderAvailability_contract[OF p, of onlyOpenRouterKey 2026 "''hello''" True]
      k
    by simp
qed

section \<open>Properties of the stream consumer\<close>

text \<open>The text and the \<open>finalText\<close> that an \<open>answer\<close> event leaves in the map.\<close>

lemma handle_answer_text:
  "accumulatedText (fst (handleThreadItemUpdate now items threadId threadItemId ''answer'' ev parent flag)) threadItemId
   = (let a = (case ev_answer ev of Some a \<Rightarrow> a | None \<Rightarrow> emptyIncomingAnswer) in
      if hasText (incomingFinalText a) then the (incomingFinalText a)
      else if hasText (incomingFullText a) then the (incomingFullText a)
      else accumulatedText items threadItemId @ (case incomingText a of Some t \<Rightarrow> t | None \<Rightarrow> []))"
  by (simp add: handleThreadItemUpdate_def accumulatedText_def mergeAnswer_def prevField_def Let_def
      split: option.splits)

lemma handle_answer_finalText:
  "storedFinalText (fst (handleThreadItemUpdate now items threadId threadItemId ''answer'' ev parent flag)) threadItemId
   = (let a = (case ev_answer ev of Some a \<Rightarrow> a | None \<Rightarrow> emptyIncomingAnswer) in
      Some (if hasText (incomingFinalText a) then the (incomingFinalText a)
      else if hasText (incomingFullText a) then the (incomingFullText a)
      else if truthy (storedFinalText items threadItemId) then the (storedFinalText items threadItemId)
      else accumulatedText items threadItemId))"
  by (simp add: handleThreadItemUpdate_def accumulatedText_def storedFinalText_def mergeAnswer_def prevField_def Let_def
      split: option.splits)

text \<open>
  C1, as the claim states it, fails: an event that supplies a \<open>finalText\<close> of one space
  does not replace the accumulated text "Hel" by that snapshot; its delta "lo" is
  appended instead.
\<close>

theorem blank_finalText_counterexample:
  "incomingFinalText (the (ev_answer (answerEvent (Some ''lo'') (Some '' '') None))) = Some '' ''
  \<and> accumulatedText
     (fst (handleThreadItemUpdate 90
        (fst (handleThreadItemUpdate 40 Map.empty ''thread-1'' ''item-1'' ''answer''
               (answerEvent (Some ''Hel'') None None) None False))
        ''thread-1'' ''item-1'' ''answer'' (answerEvent (Some ''lo'') (Some '' '') None) None False))
     ''item-1'' = ''Hello''"
  by code_simp

text \<open>
  C1, amended: on an \<open>answer\<close> event the accumulated text of the item becomes the
  incoming \<open>finalText\<close> when that holds a character other than white space, else the
  incoming \<open>fullText\<close> when that does; an event that carries neither (only a \<open>text\<close>
  delta) appends the delta to the text accumulated before. In particular the loop of
  \<open>runAgent\<close>, fed two \<open>answer\<close> events with the deltas "Hel" and "lo", leaves "Hello".
\<close>

theorem answer_merge:
  assumes "ev_answer ev = Some a"
  shows "(hasText (incomingFinalText a) \<longrightarrow>
            accumulatedText (fst (handleThreadItemUpdate now items threadId threadItemId ''answer'' ev parent flag)) threadItemId
              = the (incomingFinalText a))
       \<and> (\<not> hasText (incomingFinalText a) \<and> hasText (incomingFullText a) \<longrightarrow>
            accumulatedText (fst (handleThreadItemUpdate now items threadId threadItemId ''answer'' ev parent flag)) threadItemId
              = the (incomingFullText a))
       \<and> (incomingFinalText a = None \<and> incomingFullText a = None \<longrightarrow>
            accumulatedText (fst (handleThreadItemUpdate now items threadId threadItemId ''answer'' ev parent flag)) threadItemId
              = accumulatedText items threadItemId @ (case incomingText a of Some t \<Rightarrow> t | None \<Rightarrow> []))
       \<and> accumulatedText
            (threadItemMap
              (onFrames (startStream 0 Map.empty)
                 [(40, ''answer'', answerEvent (Some ''Hel'') None None),
                  (90, ''answer'', answerEvent (Some ''lo'') None None)]))
            ''item-1'' = ''Hello''"
proof -
  have scenario: "accumulatedText
            (threadItemMap
              (onFrames (startStream 0 Map.empty)
                 [(40, ''answer'', answerEvent (Some ''Hel'') None None),
                  (90, ''answer'', answerEvent (Some ''lo'') None None)]))
            ''item-1'' = ''Hello''"
    by code_simp
  show ?thesis using assms scenario by (simp add: handle_answer_text)
qed

theorem answer_merge_witness:
  "accumulatedText
     (fst (handleThreadItemUpdate 90
        (fst (handleThreadItemUpdate 40 Map.empty ''thread-1'' ''item-1'' ''answer''
               (answerEvent (Some ''Hel'') None None) None False))
        ''thread-1'' ''item-1'' ''answer'' (answerEvent (Some ''lo'') None (Some ''Hello world'')) None False))
     ''item-1'' = ''Hello world''
  \<and> accumulatedText
     (fst (handleThreadItemUpdate 90
        (fst (handleThreadItemUpdate 40 Map.empty ''thread-1'' ''item-1'' ''answer''
               (answerEvent (Some ''Hel'') None None) None False))
        ''thread-1'' ''item-1'' ''answer'' (answerEvent (Some ''lo'') None None) None False))
     ''item-1'' = ''Hello''"
proof -
  let ?m1 = "fst (handleThreadItemUpdate 40 Map.empty ''thread-1'' ''item-1'' ''answer''
               (answerEvent (Some ''Hel'') None None) None False)"
  have a1: "ev_answer (answerEvent t f g) = Some \<lparr>incomingText = t, incomingFinalText = f, incomingFullText = g,
                        incomingThinkingProcess = None, incomingStatus = None, incomingRest = []\<rparr>" for t f g
    by (simp add: answerEvent_def)
  have e: "accumulatedText Map.empty ''item-1'' = []" by (simp add: accumulatedText_def)
  have t1: "accumulatedText ?m1 ''item-1'' = ''Hel''"
    using answer_merge[OF a1, of "Some ''Hel''" None None 40 Map.empty "''thread-1''" "''item-1''" None False] e
    by simp
  have ht: "hasText (Some ''Hello world'')" by code_simp
  show ?thesis
    using answer_merge[OF a1, of "Some ''lo''" None "Some ''Hello world''" 90 ?m1 "''thread-1''" "''item-1''" None False]
      answer_merge[OF a1, of "Some ''lo''" None None 90 ?m1 "''thread-1''" "''item-1''" None False] t1 ht
    by simp
qed

text \<open>
  C10, as the claim states it, fails: an event whose \<open>finalText\<close> is one space and whose
  \<open>fullText\<close> is "Hello world" does not follow the delta rule; after "Hel" its delta
  "lo" is dropped and the text is the \<open>fullText\<close>, which is stored as \<open>finalText\<close> too.
\<close>

theorem blank_finalText_beside_fullText_counterexample:
  "\<not> hasText (incomingFinalText (the (ev_answer (answerEvent (Some ''lo'') (Some '' '') (Some ''Hello world'')))))
  \<and> accumulatedText
     (fst (handleThreadItemUpdate 90
        (fst (handleThreadItemUpdate 40 Map.empty ''thread-1'' ''item-1'' ''answer''
               (answerEvent (Some ''Hel'') None None) None False))
        ''thread-1'' ''item-1'' ''answer'' (answerEvent (Some ''lo'') (Some '' '') (Some ''Hello world'')) None False))
     ''item-1'' = ''Hello world''
  \<and> storedFinalText
     (fst (handleThreadItemUpdate 90
        (fst (handleThreadItemUpdate 40 Map.empty ''thread-1'' ''item-1'' ''answer''
               (answerEvent (Some ''Hel'') None None) None False))
        ''thread-1'' ''item-1'' ''answer'' (answerEvent (Some ''lo'') (Some '' '') (Some ''Hello world'')) None False))
     ''item-1'' = Some ''Hello world''"
  by code_simp

text \<open>
  C10, amended: a \<open>finalText\<close> or \<open>fullText\<close> that is empty, made of white space only,
  or absent is not taken for a snapshot, and the other of the two is when it holds a
  character other than white space. When both are blank the event is merged by the delta
  rule: the text is the previous text followed by the incoming \<open>text\<close> (if any), and the
  stored \<open>finalText\<close> is the previous \<open>finalText\<close> when that is not empty, else the
  previous text. When the \<open>finalText\<close> is blank and the \<open>fullText\<close> is not, the
  \<open>fullText\<close> becomes the text and the stored \<open>finalText\<close>; when the \<open>finalText\<close> is not
  blank, it becomes both, whatever the \<open>fullText\<close>.
\<close>

theorem blank_snapshot_merge:
  assumes "ev_answer ev = Some a"
  shows "(\<not> hasText (incomingFinalText a) \<and> \<not> hasText (incomingFullText a) \<longrightarrow>
            accumulatedText (fst (handleThreadItemUpdate now items threadId threadItemId ''answer'' ev parent flag)) threadItemId
              = accumulatedText items threadItemId @ (case incomingText a of Some t \<Rightarrow> t | None \<Rightarrow> [])
          \<and> storedFinalText (fst (handleThreadItemUpdate now items threadId threadItemId ''answer'' ev parent flag)) threadItemId
              = Some (if truthy (storedFinalText items threadItemId) then the (storedFinalText items threadItemId)
                      else accumulatedText items threadItemId))
       \<and> (\<not> hasText (incomingFinalText a) \<and> hasText (incomingFullText a) \<longrightarrow>
            accumulatedText (fst (handleThreadItemUpdate now items threadId threadItemId ''answer'' ev parent flag)) threadItemId
              = the (incomingFullText a)
          \<and> storedFinalText (fst (handleThreadItemUpdate now items threadId threadItemId ''answer'' ev parent flag)) threadItemId
              = incomingFullText a)
       \<and> (hasText (incomingFinalText a) \<longrightarrow>
            accumulatedText (fst (handleThreadItemUpdate now items threadId threadItemId ''answer'' ev parent flag)) threadItemId
              = the (incomingFinalText a)
          \<and> storedFinalText (fst (handleThreadItemUpdate now items threadId threadItemId ''answer'' ev parent flag)) threadItemId
              = incomingFinalText a)"
proof -
  have some: "hasText x \<Longrightarrow> Some (the x) = x" for x
    by (cases x) simp_all
  show ?thesis
    using assms by (simp add: handle_answer_text handle_answer_finalText some)
qed

theorem blank_snapshot_merge_witness:
  "accumulatedText
     (fst (handleThreadItemUpdate 90
        (fst (handleThreadItemUpdate 40 Map.empty ''thread-1'' ''item-1'' ''answer''
               (answerEvent (Some ''Hel'') None None) None False))
        ''thread-1'' ''item-1'' ''answer'' (answerEvent (Some ''lo'') (Some ''  '') (Some [])) None False))
     ''item-1'' = ''Hello''
  \<and> storedFinalText
     (fst (handleThreadItemUpdate 90
        (fst (handleThreadItemUpdate 40 Map.empty ''thread-1'' ''item-1'' ''answer''
               (answerEvent (Some ''Hel'') None None) None False))
        ''thread-1'' ''item-1'' ''answer'' (answerEvent (Some ''lo'') (Some ''  '') (Some [])) None False))
     ''item-1'' = Some ''Hel''
  \<and> accumulatedText
     (fst (handleThreadItemUpdate 90
        (fst (handleThreadItemUpdate 40 Map.empty ''thread-1'' ''item-1'' ''answer''
               (answerEvent (Some ''Hel'') None None) None False))
        ''thread-1'' ''item-1'' ''answer'' (answerEvent (Some ''lo'') (Some ''  '') (Some ''Hello world'')) None False))
     ''item-1'' = ''Hello world''
  \<and> storedFinalText
     (fst (handleThreadItemUpdate 90
        (fst (handleThreadItemUpdate 40 Map.empty ''thread-1'' ''item-1'' ''answer''
               (answerEvent (Some ''Hel'') None None) None False))
        ''thread-1'' ''item-1'' ''answer'' (answerEvent (Some ''lo'') (Some ''Hello'') (Some [])) None False))
     ''item-1'' = Some ''Hello''"
proof -
  let ?m1 = "fst (handleThreadItemUpdate 40 Map.empty ''thread-1'' ''item-1'' ''answer''
               (answerEvent (Some ''Hel'') None None) None False)"
  have a1: "ev_answer (answerEvent t f g) = Some \<lparr>incomingText = t, incomingFinalText = f, incomingFullText = g,
                        incomingThinkingProcess = None, incomingStatus = None, incomingRest = []\<rparr>" for t f g
    by (simp add: answerEvent_def)
  have t1: "accumulatedText ?m1 ''item-1'' = ''Hel''" by code_simp
  have f1: "storedFinalText ?m1 ''item-1'' = Some []" by code_simp
  have b: "\<not> hasText (Some ''  '')" "\<not> hasText (Some [])"
    "hasText (Some ''Hello world'')" "hasText (Some ''Hello'')" by code_simp+
  show ?thesis
    using blank_snapshot_merge[where ev = "answerEvent (Some ''lo'') (Some ''  '') (Some [])"
        and now = 90 and items = ?m1 and threadId = "''thread-1''" and threadItemId = "''item-1''"
        and parent = None and flag = False, OF a1]
      blank_snapshot_merge[where ev = "answerEvent (Some ''lo'') (Some ''  '') (Some ''Hello world'')"
        and now = 90 and items = ?m1 and threadId = "''thread-1''" and threadItemId = "''item-1''"
        and parent = None and flag = False, OF a1]
      blank_snapshot_merge[where ev = "answerEvent (Some ''lo'') (Some ''Hello'') (Some [])"
        and now = 90 and items = ?m1 and threadId = "''thread-1''" and threadItemId = "''item-1''"
        and parent = None and flag = False, OF a1]
      t1 f1 b
    by simp
qed

section \<open>Properties of the stream encoder\<close>









text \<open>
  C5, as the claim states it, fails: when the serialising of the payload throws a
  \<open>TypeError\<close> whose message contains "invalid state", on a controller that takes
  chunks, the catch block takes the error for that of a closed stream: it marks the
  controller closed, logs nothing and writes no frame.
\<close>

theorem serialization_error_taken_for_closed_counterexample:
  "sendMessage (\<lambda>pl. Inl (TypeError ''Invalid state: unable to serialize'')) openController answerPayload
     = Inr \<lparr>closed_mark = True, enqueue_throws = None, chunks = [], logged = []\<rparr>"
proof -
  have e: "isControllerClosedError (TypeError ''Invalid state: unable to serialize'')"
    by code_simp
  show ?thesis
    using e
    by (simp add: sendMessage_def sendAttempt_def Let_def openController_def)
qed

text \<open>
  C5, amended: when the sanitising or the serialising of the payload throws, on a
  controller not marked closed whose stream takes chunks, \<open>sendMessage\<close> returns to its
  caller. If the error is not a \<open>TypeError\<close> whose message contains "invalid state", it
  logs the error and enqueues one frame instead: event \<open>done\<close>, with the data
  \<open>type: done\<close>, \<open>status: error\<close>, an error text and the payload's \<open>threadId\<close>,
  \<open>threadItemId\<close> and \<open>parentThreadItemId\<close>. If it is, the function marks the controller
  closed and does nothing else.
\<close>

theorem sendMessage_serialization_failure:
  assumes "\<not> closed_mark c" "enqueue_throws c = None"
    and "f (normalizedPayload pl) = Inl e"
  shows "(\<not> isControllerClosedError e \<longrightarrow>
     sendMessage f c pl
     = Inr (c\<lparr>logged := logged c @ [''Error serializing message payload''],
              chunks := chunks c @
                [''event: done'' @ lineFeed @ ''data: '' @
                 stringifyObject
                   [(''type'', Some ''done''), (''status'', Some ''error''),
                    (''error'', Some ''Failed to serialize payload''),
                    (''threadId'', p_threadId pl), (''threadItemId'', p_threadItemId pl),
                    (''parentThreadItemId'', p_parentThreadItemId pl)]
                 @ lineFeed @ lineFeed]\<rparr>))
   \<and> (isControllerClosedError e \<longrightarrow> sendMessage f c pl = Inr (c\<lparr>closed_mark := True\<rparr>))"
  using assms
  by (simp add: sendMessage_def sendAttempt_def enqueue_def frameText_def errorMessage_def Let_def)

theorem sendMessage_serialization_failure_witness:
  \<open>sendMessage (\<lambda>pl. Inl (TypeError ''Converting circular structure to JSON'')) openController answerPayload
     = Inr (openController\<lparr>logged := [''Error serializing message payload''],
          chunks := [''event: done'' @ lineFeed @
            ''data: {"type":"done","status":"error","error":"Failed to serialize payload","threadId":"thread-1","threadItemId":"item-1"}''
            @ lineFeed @ lineFeed]\<rparr>)
   \<and> sendMessage (\<lambda>pl. Inl (TypeError ''Invalid state: unable to serialize'')) openController answerPayload
     = Inr (openController\<lparr>closed_mark := True\<rparr>)\<close>
proof -
  have e: "\<not> isControllerClosedError (TypeError ''Converting circular structure to JSON'')"
    "isControllerClosedError (TypeError ''Invalid state: unable to serialize'')"
    by code_simp+
  have s: \<open>stringifyObject
                   [(''type'', Some ''done''), (''status'', Some ''error''),
                    (''error'', Some ''Failed to serialize payload''),
                    (''threadId'', Some ''thread-1''), (''threadItemId'', Some ''item-1''),
                    (''parentThreadItemId'', None)]
      = ''{"type":"done","status":"error","error":"Failed to serialize payload","threadId":"thread-1","threadItemId":"item-1"}''\<close>
    by code_simp
  show ?thesis
    using sendMessage_serialization_failure[where c = openController and pl = answerPayload
        and f = "\<lambda>pl. Inl (TypeError ''Converting circular structure to JSON'')"
        and e = "TypeError ''Converting circular structure to JSON''"]
      sendMessage_serialization_failure[where c = openController and pl = answerPayload
        and f = "\<lambda>pl. Inl (TypeError ''Invalid state: unable to serialize'')"
        and e = "TypeError ''Invalid state: unable to serialize''"] e s
    by (simp add: openController_def answerPayload_def)
qed

section \<open>Properties of the conversation store\<close>































lemma branchGroup_selections [simp]:
  "branchGroup (st\<lparr>branchSelections := x\<rparr>) = branchGroup st"
  by (rule ext) (simp add: branchGroup_def)
















section \<open>Properties of the persistence throttle\<close>

text \<open>
  \<open>handleThreadItemUpdate\<close> hands every item to the store with \<open>persistToDB: true\<close>,
  whatever verdict of the throttle it was called with.
\<close>

lemma handleThreadItemUpdate_always_persists:
  "persistToDB (snd (handleThreadItemUpdate now items threadId threadItemId eventType ev parent flag))"
  by (simp add: handleThreadItemUpdate_def Let_def)


end
